theory Spec2Isabelle
  imports Complex_Main
begin

section \<open>The CoAP content-negotiation calculator\<close>

text \<open>
  A shallow embedding of \<^verbatim>\<open>things/calculator/coap/js/coap-content-negotiation-calculator.js\<close>:
  the expansion of the default form into the forms of every property, action and event of
  the Thing Description, and the \<^verbatim>\<open>'request'\<close> handler of the server with the two
  module variables \<^verbatim>\<open>result\<close> and \<^verbatim>\<open>lastChange\<close> it reads and writes.
\<close>

subsection \<open>Forms of the Thing Description\<close>

text \<open>
  \<^verbatim>\<open>supportedContentTypes\<close> is an array; \<^verbatim>\<open>formatIdentifiers\<close> is an object whose
  keys \<^verbatim>\<open>for ... in\<close> visits in insertion order, so it is an association list.
\<close>

definition supportedContentTypes :: "string list" where
  "supportedContentTypes = [''application/json'', ''application/cbor'']"

definition formatIdentifiers :: "(string \<times> nat) list" where
  "formatIdentifiers = [(''application/json'', 50), (''application/cbor'', 60)]"

text \<open>The value of \<^verbatim>\<open>op\<close> is a string in some forms and an array of strings in others.\<close>

datatype op_val = OpStr string | OpList "string list"

record response_form =
  r_contentType :: string
  r_contentFormat :: nat

text \<open>
  A form. The key \<^verbatim>\<open>subprotocol\<close> is absent from \<^verbatim>\<open>defaultForm\<close> and added to the
  observe and subscribe forms only: \<open>None\<close> is the absent key.
\<close>

record form =
  href :: string
  contentType :: string
  cov_contentFormat :: nat
  op :: op_val
  cov_method :: string
  cov_accept :: nat
  response :: response_form
  subprotocol :: "string option"

definition defaultForm :: form where
  "defaultForm =
     \<lparr> href = '''', contentType = ''application/json'', cov_contentFormat = 50,
       op = OpStr '''', cov_method = '''', cov_accept = 50,
       response = \<lparr> r_contentType = ''application/json'', r_contentFormat = 50 \<rparr>,
       subprotocol = None \<rparr>"

text \<open>
  Properties (lines 72 to 106). The loop over \<^verbatim>\<open>formatIdentifiers\<close> pushes onto the
  \<^verbatim>\<open>forms\<close> array, which is the accumulator here; \<^verbatim>\<open>originalForm\<close> is
  \<^verbatim>\<open>forms[0]\<close>, which the loop never writes to (every new form is a deep copy).
\<close>

fun property_loop :: "form \<Rightarrow> (string \<times> nat) list \<Rightarrow> form list \<Rightarrow> form list" where
  "property_loop originalForm [] forms = forms"
| "property_loop originalForm ((identifier, code) # rest) forms =
     property_loop originalForm rest
       (if contentType originalForm \<noteq> identifier then
          (let newFormRead = originalForm
                 \<lparr> contentType := identifier, cov_contentFormat := code, cov_accept := code,
                   response := \<lparr> r_contentType = identifier, r_contentFormat = code \<rparr> \<rparr>;
               newFormObs = newFormRead
                 \<lparr> op := OpList [''observeproperty'', ''unobserveproperty''],
                   subprotocol := Some ''cov:observe'' \<rparr>
           in forms @ [newFormRead, newFormObs])
        else forms)"

definition property_forms :: "(string \<times> nat) list \<Rightarrow> string \<Rightarrow> form list" where
  "property_forms fi key =
     (let newFormRead = defaultForm
            \<lparr> href := ''properties/'' @ key, cov_method := ''GET'', op := OpStr ''readproperty'' \<rparr>;
          newFormObs = newFormRead
            \<lparr> op := OpList [''observeproperty'', ''unobserveproperty''],
              subprotocol := Some ''cov:observe'' \<rparr>
      in property_loop newFormRead fi [newFormRead, newFormObs])"

text \<open>
  Actions (lines 109 to 163). The source writes the inner loop twice, once over the new
  form of a representation other than the original one's and once over the original form;
  the two bodies are the same up to the form they clone, which is \<open>base\<close> here.
\<close>

fun action_inner :: "form \<Rightarrow> (string \<times> nat) list \<Rightarrow> form list \<Rightarrow> form list" where
  "action_inner base [] forms = forms"
| "action_inner base ((identifier, code) # rest) forms =
     action_inner base rest
       (if cov_accept base \<noteq> code then
          forms @ [base \<lparr> cov_accept := code,
                          response := \<lparr> r_contentType = identifier, r_contentFormat = code \<rparr> \<rparr>]
        else forms)"

fun action_outer ::
  "(string \<times> nat) list \<Rightarrow> form \<Rightarrow> (string \<times> nat) list \<Rightarrow> form list \<Rightarrow> form list" where
  "action_outer fi originalForm [] forms = forms"
| "action_outer fi originalForm ((identifier, code) # rest) forms =
     action_outer fi originalForm rest
       (if contentType originalForm \<noteq> identifier then
          (let newForm = originalForm
                 \<lparr> contentType := identifier, cov_contentFormat := code, cov_accept := code,
                   response := \<lparr> r_contentType = identifier, r_contentFormat = code \<rparr> \<rparr>
           in action_inner newForm fi (forms @ [newForm]))
        else action_inner originalForm fi forms)"

definition action_forms :: "(string \<times> nat) list \<Rightarrow> string \<Rightarrow> form list" where
  "action_forms fi key =
     (let newForm = defaultForm
            \<lparr> href := ''actions/'' @ key, cov_method := ''POST'', op := OpStr ''invokeaction'' \<rparr>
      in action_outer fi newForm fi [newForm])"

text \<open>Events (lines 167 to 192).\<close>

fun event_loop :: "form \<Rightarrow> (string \<times> nat) list \<Rightarrow> form list \<Rightarrow> form list" where
  "event_loop originalForm [] forms = forms"
| "event_loop originalForm ((identifier, code) # rest) forms =
     event_loop originalForm rest
       (if contentType originalForm \<noteq> identifier then
          forms @ [originalForm
                     \<lparr> contentType := identifier, cov_contentFormat := code, cov_accept := code,
                       response := \<lparr> r_contentType = identifier, r_contentFormat = code \<rparr> \<rparr>]
        else forms)"

definition event_forms :: "(string \<times> nat) list \<Rightarrow> string \<Rightarrow> form list" where
  "event_forms fi key =
     (let newForm = defaultForm
            \<lparr> href := ''events/'' @ key, cov_method := ''GET'',
              op := OpList [''subscribeevent'', ''unsubscribeevent''],
              subprotocol := Some ''cov:observe'' \<rparr>
      in event_loop newForm fi [newForm])"

text \<open>
  The representation a form takes the request body in and the one it answers in.
\<close>

definition form_pair :: "form \<Rightarrow> string \<times> string" where
  "form_pair f = (contentType f, r_contentType (response f))"

text \<open>
  For the proofs: the pairs that one round of the outer loop of the actions adds, for the
  entry \<open>p\<close> of the registry.
\<close>

definition row_of :: "(string \<times> nat) list \<Rightarrow> form \<Rightarrow> string \<times> nat \<Rightarrow> (string \<times> string) list" where
  "row_of fi orig p =
     (if contentType orig \<noteq> fst p
      then (fst p, fst p) # map (\<lambda>q. (fst p, fst q)) (filter (\<lambda>q. snd q \<noteq> snd p) fi)
      else map (\<lambda>q. (contentType orig, fst q)) (filter (\<lambda>q. snd q \<noteq> cov_accept orig) fi))"

text \<open>
  The Thing Model is read from the file \<^verbatim>\<open>TM_PATH\<close> names, which is not part of the
  sources; what the script takes from it is the keys of its three affordance objects.
\<close>

record thing_model =
  property_keys :: "string list"
  action_keys :: "string list"
  event_keys :: "string list"

record thing_description =
  td_properties :: "(string \<times> form list) list"
  td_actions :: "(string \<times> form list) list"
  td_events :: "(string \<times> form list) list"

definition thingDescription :: "thing_model \<Rightarrow> thing_description" where
  "thingDescription tm =
     \<lparr> td_properties = map (\<lambda>key. (key, property_forms formatIdentifiers key)) (property_keys tm),
       td_actions = map (\<lambda>key. (key, action_forms formatIdentifiers key)) (action_keys tm),
       td_events = map (\<lambda>key. (key, event_forms formatIdentifiers key)) (event_keys tm) \<rparr>"

subsection \<open>JavaScript values\<close>

text \<open>
  A JavaScript number is an IEEE 754 binary64 value. \<open>Num q\<close> is the finite double
  whose value is the rational \<open>q\<close>; the two zeros are one value here (they are equal
  under \<^verbatim>\<open>===\<close> and both falsy, which is all the handler asks of an operand, and the
  accumulator never becomes the negative zero).
\<close>

datatype jsnum = NaN | PosInfinity | NegInfinity | Num rat

text \<open>
  Rounding of an exact sum to the nearest double, ties to the even significand: 53
  significant bits, the exponent of the least bit no smaller than \<open>-1074\<close>, overflow
  to an infinity from \<open>2 ^ 1024\<close> on.
\<close>

function bit_length :: "int \<Rightarrow> nat" where
  "bit_length n = (if n \<le> 0 then 0 else Suc (bit_length (n div 2)))"
  by pat_completeness auto
termination
  by (relation "measure nat") auto

declare bit_length.simps [simp del]

text \<open>The integer part of the binary logarithm of a positive rational.\<close>

definition floor_log2 :: "rat \<Rightarrow> int" where
  "floor_log2 a =
     (if 1 \<le> a then int (bit_length \<lfloor>a\<rfloor>) - 1
      else - int (bit_length (\<lceil>1 / a\<rceil> - 1)))"

definition pow2 :: "int \<Rightarrow> rat" where
  "pow2 i = (if 0 \<le> i then 2 ^ nat i else 1 / 2 ^ nat (- i))"

definition round_half_even :: "rat \<Rightarrow> int" where
  "round_half_even x =
     (let f = \<lfloor>x\<rfloor>; d = x - of_int f
      in if d < 1 / 2 then f else if 1 / 2 < d then f + 1 else if even f then f else f + 1)"

definition to_double :: "rat \<Rightarrow> jsnum" where
  "to_double q =
     (if q = 0 then Num 0
      else
        (let a = \<bar>q\<bar>;
             e = max (floor_log2 a) (- 1022);
             u = pow2 (e - 52);
             v = of_int (round_half_even (a / u)) * u
         in if 2 ^ 1024 \<le> v then (if 0 < q then PosInfinity else NegInfinity)
            else Num (sgn q * v)))"

fun js_add :: "jsnum \<Rightarrow> jsnum \<Rightarrow> jsnum" where
  "js_add NaN y = NaN"
| "js_add x NaN = NaN"
| "js_add PosInfinity NegInfinity = NaN"
| "js_add NegInfinity PosInfinity = NaN"
| "js_add PosInfinity y = PosInfinity"
| "js_add x PosInfinity = PosInfinity"
| "js_add NegInfinity y = NegInfinity"
| "js_add x NegInfinity = NegInfinity"
| "js_add (Num a) (Num b) = to_double (a + b)"

fun js_negate :: "jsnum \<Rightarrow> jsnum" where
  "js_negate NaN = NaN"
| "js_negate PosInfinity = NegInfinity"
| "js_negate NegInfinity = PosInfinity"
| "js_negate (Num a) = Num (- a)"

definition js_subtract :: "jsnum \<Rightarrow> jsnum \<Rightarrow> jsnum" where
  "js_subtract x y = js_add x (js_negate y)"

text \<open>
  The values the handler meets: header values, decoded payloads, and the two module
  variables. A \<^verbatim>\<open>Date\<close> is an object, so it has an identity (its first argument, the
  number of dates made before it) beside its time value in milliseconds; \<open>JObject\<close> is
  any other object a decoder returns (an array, a map, a buffer), by identity.
\<close>

datatype jsval =
  JUndefined | JNull | JBool bool | JNum jsnum | JStr string | JDate nat int | JObject nat

fun typeof :: "jsval \<Rightarrow> string" where
  "typeof JUndefined = ''undefined''"
| "typeof JNull = ''object''"
| "typeof (JBool b) = ''boolean''"
| "typeof (JNum n) = ''number''"
| "typeof (JStr s) = ''string''"
| "typeof (JDate i t) = ''object''"
| "typeof (JObject i) = ''object''"

text \<open>\<^verbatim>\<open>!v\<close> is \<open>\<not> truthy v\<close>.\<close>

fun truthy :: "jsval \<Rightarrow> bool" where
  "truthy JUndefined = False"
| "truthy JNull = False"
| "truthy (JBool b) = b"
| "truthy (JNum n) = (n \<noteq> NaN \<and> n \<noteq> Num 0)"
| "truthy (JStr s) = (s \<noteq> [])"
| "truthy (JDate i t) = True"
| "truthy (JObject i) = True"

text \<open>\<^verbatim>\<open>a === b\<close>: numbers by value with \<^verbatim>\<open>NaN\<close> equal to nothing, objects by identity.\<close>

fun strict_equals :: "jsval \<Rightarrow> jsval \<Rightarrow> bool" where
  "strict_equals (JNum a) (JNum b) = (a \<noteq> NaN \<and> a = b)"
| "strict_equals (JDate i s) (JDate j t) = (i = j)"
| "strict_equals a b = (a = b)"

text \<open>\<^verbatim>\<open>a || b\<close>\<close>

definition js_or :: "jsval \<Rightarrow> jsval \<Rightarrow> jsval" where
  "js_or a b = (if truthy a then a else b)"

text \<open>
  \<^verbatim>\<open>supportedContentTypes.includes(v)\<close>: the array holds strings only, so a value that is
  not a string is not included.
\<close>

fun array_includes :: "string list \<Rightarrow> jsval \<Rightarrow> bool" where
  "array_includes xs (JStr s) = (s \<in> set xs)"
| "array_includes xs v = False"

text \<open>\<^verbatim>\<open>s.includes(t)\<close> on strings: \<open>t\<close> occurs in \<open>s\<close>.\<close>

fun starts_with :: "string \<Rightarrow> string \<Rightarrow> bool" where
  "starts_with s [] = True"
| "starts_with [] (c # t) = False"
| "starts_with (a # s) (c # t) = (a = c \<and> starts_with s t)"

fun string_includes :: "string \<Rightarrow> string \<Rightarrow> bool" where
  "string_includes [] t = (t = [])"
| "string_includes (a # s) t = (starts_with (a # s) t \<or> string_includes s t)"

text \<open>
  The handler calls \<^verbatim>\<open>.includes('application/json')\<close> on a header value only after
  \<^verbatim>\<open>supportedContentTypes.includes\<close> has held of it, so on a string; the second equation
  is never reached.
\<close>

fun value_includes :: "jsval \<Rightarrow> string \<Rightarrow> bool" where
  "value_includes (JStr s) t = string_includes s t"
| "value_includes v t = False"

text \<open>\<^verbatim>\<open>url.split('/')\<close>, and \<^verbatim>\<open>segments[i]\<close> with \<open>None\<close> for \<^verbatim>\<open>undefined\<close>.\<close>

fun split_from :: "string \<Rightarrow> string \<Rightarrow> string list" where
  "split_from cur [] = [rev cur]"
| "split_from cur (c # cs) =
     (if c = CHR ''/'' then rev cur # split_from [] cs else split_from (c # cur) cs)"

definition split_slash :: "string \<Rightarrow> string list" where
  "split_slash s = split_from [] s"

definition seg :: "string list \<Rightarrow> nat \<Rightarrow> string option" where
  "seg segments i = (if i < length segments then Some (segments ! i) else None)"

text \<open>\<^verbatim>\<open>!segments[i]\<close>: the segment is missing or empty.\<close>

fun no_segment :: "string option \<Rightarrow> bool" where
  "no_segment None = True"
| "no_segment (Some s) = (s = [])"

subsection \<open>Requests, responses and the state of the server\<close>

record request =
  url :: string
  req_method :: string
  headers :: "string \<Rightarrow> jsval"
  payload :: string

text \<open>
  \<^verbatim>\<open>JSON.parse\<close> and \<^verbatim>\<open>cbor.decode\<close> are not part of the sources: they are parameters,
  from the bytes of the payload to the decoded value, \<open>None\<close> when the decoder throws.
  What \<^verbatim>\<open>JSON.stringify\<close> and \<^verbatim>\<open>cbor.encode\<close> return is kept as the call itself.
\<close>

record codec =
  json_parse :: "string \<Rightarrow> jsval option"
  cbor_decode :: "string \<Rightarrow> jsval option"

datatype body = JsonStringify jsval | CborEncode jsval | JsonStringifyTD thing_description

text \<open>
  What the handler does to \<^verbatim>\<open>res\<close>, in order: \<^verbatim>\<open>res.code = n\<close>,
  \<^verbatim>\<open>res.statusCode = n\<close>, \<^verbatim>\<open>res.setOption(name, value)\<close>, \<^verbatim>\<open>res.write(data)\<close>,
  and \<^verbatim>\<open>res.end()\<close> or \<^verbatim>\<open>res.end(data)\<close>.
\<close>

datatype res_op =
  SetCode nat | SetStatusCode nat | SetOption string jsval | Write body | End "body option"

text \<open>
  The module variables \<^verbatim>\<open>result\<close> and \<^verbatim>\<open>lastChange\<close>, and the number of
  \<^verbatim>\<open>Date\<close> objects made so far (the identity of the next one).
\<close>

record calculator =
  result :: jsnum
  lastChange :: jsval
  dates_made :: nat

definition initial :: calculator where
  "initial = \<lparr> result = Num 0, lastChange = JStr [], dates_made = 0 \<rparr>"

text \<open>
  An observation: the closure of the \<^verbatim>\<open>setInterval\<close> callback, that is which variable
  it watches, the \<^verbatim>\<open>acceptHeaders\<close> of the request that started it, and its
  \<^verbatim>\<open>oldResult\<close> or \<^verbatim>\<open>oldDate\<close>.
\<close>

datatype watched = ResultProperty | LastChangeProperty | UpdateEvent

record subscription =
  watches :: watched
  sub_accept :: jsval
  old_value :: jsval

text \<open>
  What one run of the handler leaves: the module variables, the operations on
  \<^verbatim>\<open>res\<close>, the intervals it started, and whether it ended in an exception thrown by a
  decoder (which nothing in the handler catches).
\<close>

record outcome =
  state :: calculator
  sent :: "res_op list"
  opened :: "subscription list"
  threw :: bool

definition thingName :: string where
  "thingName = ''coap-calculator-content-negotiation''"

definition segments_of :: "request \<Rightarrow> string list" where
  "segments_of req = split_slash (url req)"

definition acceptHeaders :: "request \<Rightarrow> jsval" where
  "acceptHeaders req = headers req ''Accept''"

definition reqContentType :: "request \<Rightarrow> jsval" where
  "reqContentType req = js_or (headers req ''Content-Type'') (headers req ''Content-Format'')"

text \<open>\<^verbatim>\<open>req.headers.Observe === 0\<close>\<close>

definition observe_requested :: "request \<Rightarrow> bool" where
  "observe_requested req = strict_equals (headers req ''Observe'') (JNum (Num 0))"

text \<open>
  The \<^verbatim>\<open>if (accept.includes('application/json')) JSON.stringify(v) else cbor.encode(v)\<close>
  that every branch of the handler and every interval repeats.
\<close>

definition encode_for :: "jsval \<Rightarrow> jsval \<Rightarrow> body" where
  "encode_for accept v =
     (if value_includes accept ''application/json'' then JsonStringify v else CborEncode v)"

definition decode_payload :: "codec \<Rightarrow> jsval \<Rightarrow> string \<Rightarrow> jsval option" where
  "decode_payload c contentType_of_body bytes =
     (if value_includes contentType_of_body ''application/json'' then json_parse c bytes
      else cbor_decode c bytes)"

text \<open>The operand as a number, used once \<^verbatim>\<open>typeof\<close> has said it is one.\<close>

fun the_number :: "jsval \<Rightarrow> jsnum" where
  "the_number (JNum n) = n"
| "the_number v = NaN"

subsection \<open>The request handler\<close>

text \<open>
  The handler is four \<^verbatim>\<open>if\<close> statements one after the other (lines 217, 232, 345 and
  431); none of them returns, so each is looked at whatever the ones before it did.
  Lines 217 to 230: the name of the thing, and the Thing Description.
\<close>

definition serve_root :: "thing_description \<Rightarrow> request \<Rightarrow> res_op list" where
  "serve_root td req =
     (let segments = segments_of req in
      if seg segments 1 \<noteq> Some thingName then [SetCode 404, End None]
      else if no_segment (seg segments 2) then
        (if req_method req = ''GET'' then [End (Some (JsonStringifyTD td))]
         else [SetCode 405, End None])
      else [])"

text \<open>Lines 232 to 343: the properties.\<close>

definition serve_properties :: "request \<Rightarrow> calculator \<Rightarrow> res_op list \<times> subscription list" where
  "serve_properties req st =
     (let segments = segments_of req; accept = acceptHeaders req in
      if seg segments 2 = Some ''properties'' then
        if req_method req = ''GET'' then
          if array_includes supportedContentTypes accept then
            if seg segments 3 = Some ''result'' then
              if observe_requested req then
                ([SetOption ''Content-Format'' accept],
                 [\<lparr> watches = ResultProperty, sub_accept = accept,
                     old_value = JNum (result st) \<rparr>])
              else
                ([SetOption ''Content-Format'' accept,
                  End (Some (encode_for accept (JNum (result st))))], [])
            else if seg segments 3 = Some ''lastChange'' then
              if observe_requested req then
                ([SetOption ''Content-Format'' accept],
                 [\<lparr> watches = LastChangeProperty, sub_accept = accept,
                     old_value = lastChange st \<rparr>])
              else
                ([SetOption ''Content-Format'' accept,
                  End (Some (encode_for accept (lastChange st)))], [])
            else ([SetOption ''Content-Format'' accept, SetCode 404, End None], [])
          else ([SetStatusCode 406, End None], [])
        else ([SetCode 405, End None], [])
      else ([], []))"

text \<open>
  Lines 345 to 429: the actions. The two branches \<^verbatim>\<open>add\<close> and \<^verbatim>\<open>subtract\<close> differ
  in the operation only (\<^verbatim>\<open>+=\<close>, \<^verbatim>\<open>-=\<close>), which is the first argument of
  \<open>invoke\<close>; \<open>now\<close> is the time \<^verbatim>\<open>new Date()\<close> reads. The result is the module
  variables, the operations on \<^verbatim>\<open>res\<close>, and whether the decoder threw.
\<close>

definition invoke ::
  "(jsnum \<Rightarrow> jsnum \<Rightarrow> jsnum) \<Rightarrow> codec \<Rightarrow> int \<Rightarrow> request \<Rightarrow> calculator
     \<Rightarrow> calculator \<times> res_op list \<times> bool" where
  "invoke operation c now req st =
     (let accept = acceptHeaders req in
      case decode_payload c (reqContentType req) (payload req) of
        None \<Rightarrow> (st, [SetOption ''Content-Format'' accept], True)
      | Some operand \<Rightarrow>
          if typeof operand \<noteq> ''number'' \<or> \<not> truthy operand then
            (st, [SetOption ''Content-Format'' accept, SetCode 400, End None], False)
          else
            (let st' = st \<lparr> result := operation (result st) (the_number operand),
                            lastChange := JDate (dates_made st) now,
                            dates_made := Suc (dates_made st) \<rparr>
             in (st', [SetOption ''Content-Format'' accept,
                       End (Some (encode_for accept (JNum (result st'))))], False)))"

definition serve_actions ::
  "codec \<Rightarrow> int \<Rightarrow> request \<Rightarrow> calculator \<Rightarrow> calculator \<times> res_op list \<times> bool" where
  "serve_actions c now req st =
     (let segments = segments_of req in
      if seg segments 2 = Some ''actions'' then
        if req_method req = ''POST'' then
          if array_includes supportedContentTypes (reqContentType req) then
            if array_includes supportedContentTypes (acceptHeaders req) then
              if seg segments 3 = Some ''add'' then invoke js_add c now req st
              else if seg segments 3 = Some ''subtract'' then invoke js_subtract c now req st
              else (st, [SetOption ''Content-Format'' (acceptHeaders req), SetCode 404, End None],
                    False)
            else (st, [SetCode 406, End None], False)
          else (st, [SetCode 415, End None], False)
        else (st, [SetCode 405, End None], False)
      else (st, [], False))"

text \<open>Lines 431 to 476: the event.\<close>

definition serve_events :: "request \<Rightarrow> calculator \<Rightarrow> res_op list \<times> subscription list" where
  "serve_events req st =
     (let segments = segments_of req; accept = acceptHeaders req in
      if seg segments 2 = Some ''events'' \<and> req_method req = ''GET'' then
        if seg segments 3 = Some ''update'' then
          if observe_requested req then
            if array_includes supportedContentTypes accept then
              ([], [\<lparr> watches = UpdateEvent, sub_accept = accept,
                       old_value = JNum (result st) \<rparr>])
            else ([SetStatusCode 406, End None], [])
          else ([SetCode 402, End None], [])
        else ([SetCode 404, End None], [])
      else ([], []))"

text \<open>
  The whole handler. An exception of the decoder leaves it at once, so the statements
  after the actions are not run then.
\<close>

definition on_request ::
  "codec \<Rightarrow> thing_description \<Rightarrow> int \<Rightarrow> request \<Rightarrow> calculator \<Rightarrow> outcome" where
  "on_request c td now req st =
     (let ops0 = serve_root td req;
          (ops1, subs1) = serve_properties req st;
          (st', ops2, thrown) = serve_actions c now req st;
          (ops3, subs3) = (if thrown then ([], []) else serve_events req st')
      in \<lparr> state = st', sent = ops0 @ ops1 @ ops2 @ ops3, opened = subs1 @ subs3,
           threw = thrown \<rparr>)"

text \<open>Requests handled one after the other, each at its own time.\<close>

fun run :: "codec \<Rightarrow> thing_description \<Rightarrow> (int \<times> request) list \<Rightarrow> calculator \<Rightarrow> calculator" where
  "run c td [] st = st"
| "run c td ((now, req) # rest) st = run c td rest (state (on_request c td now req st))"

text \<open>
  The requests that reach the assignments to \<^verbatim>\<open>result\<close> and \<^verbatim>\<open>lastChange\<close> (lines
  369, 370, 398 and 399), that is the successful calls of \<^verbatim>\<open>add\<close> and
  \<^verbatim>\<open>subtract\<close>: the guards of the statement for the actions, in the order of the source.
  The name of the thing is not among them.
\<close>

definition mutates :: "codec \<Rightarrow> request \<Rightarrow> bool" where
  "mutates c req =
     (seg (segments_of req) 2 = Some ''actions''
      \<and> req_method req = ''POST''
      \<and> array_includes supportedContentTypes (reqContentType req)
      \<and> array_includes supportedContentTypes (acceptHeaders req)
      \<and> (seg (segments_of req) 3 = Some ''add'' \<or> seg (segments_of req) 3 = Some ''subtract'')
      \<and> (case decode_payload c (reqContentType req) (payload req) of
            None \<Rightarrow> False
          | Some operand \<Rightarrow> typeof operand = ''number'' \<and> truthy operand))"

subsection \<open>The intervals\<close>

text \<open>The variable an interval compares its old value with.\<close>

fun live_value :: "watched \<Rightarrow> calculator \<Rightarrow> jsval" where
  "live_value ResultProperty st = JNum (result st)"
| "live_value LastChangeProperty st = lastChange st"
| "live_value UpdateEvent st = JNum (result st)"

text \<open>
  One run of a \<^verbatim>\<open>setInterval\<close> callback (lines 249 to 264, 293 to 308 and 439 to
  456): the operations on the \<^verbatim>\<open>res\<close> of its request, and the closure after it. The
  callback of the event sets the option \<^verbatim>\<open>Content-Format\<close> on every run, before it
  compares.
\<close>

definition tick :: "calculator \<Rightarrow> subscription \<Rightarrow> res_op list \<times> subscription" where
  "tick st s =
     (let before = (case watches s of
                      UpdateEvent \<Rightarrow> [SetOption ''Content-Format'' (sub_accept s)]
                    | _ \<Rightarrow> []);
          current = live_value (watches s) st
      in if \<not> strict_equals (old_value s) current then
           (before @ [SetStatusCode 205, Write (encode_for (sub_accept s) current)],
            s \<lparr> old_value := current \<rparr>)
         else (before, s))"

subsection \<open>Timestamps\<close>

text \<open>
  Whether the date \<open>new\<close> is strictly later than the date \<open>old\<close> (their time values
  compared, as \<^verbatim>\<open>new > old\<close> does on two \<^verbatim>\<open>Date\<close> objects). The initial
  \<^verbatim>\<open>lastChange\<close> is the empty string, which is no timestamp.
\<close>

fun strictly_later :: "jsval \<Rightarrow> jsval \<Rightarrow> bool" where
  "strictly_later (JDate i new) (JDate j old) = (old < new)"
| "strictly_later a b = False"

subsection \<open>Inputs of the closed examples\<close>

text \<open>
  The Thing Description of a Thing Model with the affordances the handler serves; decoders
  that know the few payloads the examples send (\<^verbatim>\<open>JSON.parse\<close> of the text
  \<^verbatim>\<open>1e999\<close> is \<^verbatim>\<open>Infinity\<close>, the CBOR encoding of a small unsigned integer is the
  byte of that value, and on the empty payload both decoders throw); and a request with the given headers and no others.
\<close>

definition sample_td :: thing_description where
  "sample_td = thingDescription
     \<lparr> property_keys = [''result'', ''lastChange''], action_keys = [''add'', ''subtract''],
       event_keys = [''update''] \<rparr>"

definition sample_codec :: codec where
  "sample_codec =
     \<lparr> json_parse = (\<lambda>bytes.
         if bytes = ''10'' then Some (JNum (Num 10))
         else if bytes = ''5'' then Some (JNum (Num 5))
         else if bytes = ''0'' then Some (JNum (Num 0))
         else if bytes = ''1e999'' then Some (JNum PosInfinity)
         else None),
       cbor_decode = (\<lambda>bytes.
         if bytes = [CHR 0x0A] then Some (JNum (Num 10))
         else if bytes = [CHR 0x05] then Some (JNum (Num 5))
         else None) \<rparr>"

definition sample_request ::
  "string \<Rightarrow> string \<Rightarrow> (string \<times> jsval) list \<Rightarrow> string \<Rightarrow> request" where
  "sample_request path meth hs bytes =
     \<lparr> url = path, req_method = meth,
       headers = (\<lambda>name. case map_of hs name of Some v \<Rightarrow> v | None \<Rightarrow> JUndefined),
       payload = bytes \<rparr>"

section \<open>Form expansion\<close>

lemma action_forms_unfold:
  "action_forms formatIdentifiers key =
     (let base = defaultForm
            \<lparr> href := ''actions/'' @ key, cov_method := ''POST'', op := OpStr ''invokeaction'' \<rparr>
      in [ base,
           base \<lparr> cov_accept := 60,
                  response := \<lparr> r_contentType = ''application/cbor'', r_contentFormat = 60 \<rparr> \<rparr>,
           base \<lparr> contentType := ''application/cbor'', cov_contentFormat := 60, cov_accept := 60,
                  response := \<lparr> r_contentType = ''application/cbor'', r_contentFormat = 60 \<rparr> \<rparr>,
           base \<lparr> contentType := ''application/cbor'', cov_contentFormat := 60, cov_accept := 50,
                  response := \<lparr> r_contentType = ''application/json'', r_contentFormat = 50 \<rparr> \<rparr> ])"
  by (simp add: action_forms_def formatIdentifiers_def defaultForm_def Let_def)

lemma action_form_pairs:
  "map form_pair (action_forms formatIdentifiers key) =
     [ (''application/json'', ''application/json''), (''application/json'', ''application/cbor''),
       (''application/cbor'', ''application/cbor''), (''application/cbor'', ''application/json'') ]"
  by (simp add: action_forms_unfold form_pair_def defaultForm_def Let_def)

text \<open>
  C1. The forms of an action, whatever its key (\<^verbatim>\<open>add\<close>, \<^verbatim>\<open>subtract\<close>), pair the
  request and the response representation in every way the registered representations
  allow: the set of pairs is the cross product of the registry with itself, no pair occurs
  twice, and there are
  \<open>|representations| + (|representations| - 1) * |representations|\<close> forms, which is 4.
\<close>

theorem action_forms_cross_product:
  "set (map form_pair (action_forms formatIdentifiers key)) =
     set (List.product supportedContentTypes supportedContentTypes)
   \<and> set (map form_pair (action_forms formatIdentifiers key)) =
     set (List.product (map fst formatIdentifiers) (map fst formatIdentifiers))
   \<and> distinct (map form_pair (action_forms formatIdentifiers key))
   \<and> length (action_forms formatIdentifiers key) =
     length formatIdentifiers + (length formatIdentifiers - 1) * length formatIdentifiers
   \<and> length (action_forms formatIdentifiers key) = 4"
proof -
  have len: "length (action_forms formatIdentifiers key) = 4"
    by (simp add: action_forms_unfold Let_def)
  have regs: "map fst formatIdentifiers = supportedContentTypes"
    by (simp add: formatIdentifiers_def supportedContentTypes_def)
  have cross: "set (map form_pair (action_forms formatIdentifiers key)) =
      set (List.product supportedContentTypes supportedContentTypes)"
    unfolding action_form_pairs by (auto simp: supportedContentTypes_def)
  have dist: "distinct (map form_pair (action_forms formatIdentifiers key))"
    unfolding action_form_pairs by simp
  have count: "length formatIdentifiers + (length formatIdentifiers - 1) * length formatIdentifiers = 4"
    by (simp add: formatIdentifiers_def)
  from len regs cross dist count show ?thesis by simp
qed

lemma property_forms_subprotocols:
  "map subprotocol (property_forms formatIdentifiers key) =
     [None, Some ''cov:observe'', None, Some ''cov:observe'']"
  by (simp add: property_forms_def formatIdentifiers_def defaultForm_def Let_def)

lemma event_forms_subprotocols:
  "map subprotocol (event_forms formatIdentifiers key) =
     [Some ''cov:observe'', Some ''cov:observe'']"
  by (simp add: event_forms_def formatIdentifiers_def defaultForm_def Let_def)

text \<open>
  C2, as stated, fails on the event: \<^verbatim>\<open>update\<close> can only be observed (each of its forms
  has the subprotocol \<^verbatim>\<open>cov:observe\<close>), and it gets one form for each of the two
  representations, 2 forms and not \<open>2 * |representations| = 4\<close>.
\<close>

theorem update_event_has_two_forms:
  "length (event_forms formatIdentifiers ''update'') = 2
   \<and> length (event_forms formatIdentifiers ''update'') \<noteq> 2 * length formatIdentifiers
   \<and> map subprotocol (event_forms formatIdentifiers ''update'') =
       [Some ''cov:observe'', Some ''cov:observe'']"
  by (simp add: event_forms_def formatIdentifiers_def defaultForm_def Let_def)

text \<open>
  C2, amended. A property, whatever its key (\<^verbatim>\<open>result\<close>, \<^verbatim>\<open>lastChange\<close>), gets
  \<open>2 * |representations|\<close> forms, a read form and an observe form for each
  representation, which is 4; an event, whatever its key (\<^verbatim>\<open>update\<close>), gets
  \<open>|representations|\<close> forms, one subscribe form for each representation, which is 2.
\<close>

theorem property_and_event_form_counts:
  "property_forms formatIdentifiers key =
     [ \<lparr> href = ''properties/'' @ key, contentType = ''application/json'',
         cov_contentFormat = 50, op = OpStr ''readproperty'', cov_method = ''GET'',
         cov_accept = 50,
         response = \<lparr> r_contentType = ''application/json'', r_contentFormat = 50 \<rparr>,
         subprotocol = None \<rparr>,
       \<lparr> href = ''properties/'' @ key, contentType = ''application/json'',
         cov_contentFormat = 50, op = OpList [''observeproperty'', ''unobserveproperty''],
         cov_method = ''GET'', cov_accept = 50,
         response = \<lparr> r_contentType = ''application/json'', r_contentFormat = 50 \<rparr>,
         subprotocol = Some ''cov:observe'' \<rparr>,
       \<lparr> href = ''properties/'' @ key, contentType = ''application/cbor'',
         cov_contentFormat = 60, op = OpStr ''readproperty'', cov_method = ''GET'',
         cov_accept = 60,
         response = \<lparr> r_contentType = ''application/cbor'', r_contentFormat = 60 \<rparr>,
         subprotocol = None \<rparr>,
       \<lparr> href = ''properties/'' @ key, contentType = ''application/cbor'',
         cov_contentFormat = 60, op = OpList [''observeproperty'', ''unobserveproperty''],
         cov_method = ''GET'', cov_accept = 60,
         response = \<lparr> r_contentType = ''application/cbor'', r_contentFormat = 60 \<rparr>,
         subprotocol = Some ''cov:observe'' \<rparr> ]
   \<and> length (property_forms formatIdentifiers key) = 2 * length formatIdentifiers
   \<and> length (property_forms formatIdentifiers key) = 4
   \<and> event_forms formatIdentifiers key =
     [ \<lparr> href = ''events/'' @ key, contentType = ''application/json'',
         cov_contentFormat = 50, op = OpList [''subscribeevent'', ''unsubscribeevent''],
         cov_method = ''GET'', cov_accept = 50,
         response = \<lparr> r_contentType = ''application/json'', r_contentFormat = 50 \<rparr>,
         subprotocol = Some ''cov:observe'' \<rparr>,
       \<lparr> href = ''events/'' @ key, contentType = ''application/cbor'',
         cov_contentFormat = 60, op = OpList [''subscribeevent'', ''unsubscribeevent''],
         cov_method = ''GET'', cov_accept = 60,
         response = \<lparr> r_contentType = ''application/cbor'', r_contentFormat = 60 \<rparr>,
         subprotocol = Some ''cov:observe'' \<rparr> ]
   \<and> length (event_forms formatIdentifiers key) = length formatIdentifiers
   \<and> length (event_forms formatIdentifiers key) = 2"
proof -
  have registry: "length formatIdentifiers = 2"
    by (simp add: formatIdentifiers_def)
  have props: "property_forms formatIdentifiers key =
     [ \<lparr> href = ''properties/'' @ key, contentType = ''application/json'',
         cov_contentFormat = 50, op = OpStr ''readproperty'', cov_method = ''GET'',
         cov_accept = 50,
         response = \<lparr> r_contentType = ''application/json'', r_contentFormat = 50 \<rparr>,
         subprotocol = None \<rparr>,
       \<lparr> href = ''properties/'' @ key, contentType = ''application/json'',
         cov_contentFormat = 50, op = OpList [''observeproperty'', ''unobserveproperty''],
         cov_method = ''GET'', cov_accept = 50,
         response = \<lparr> r_contentType = ''application/json'', r_contentFormat = 50 \<rparr>,
         subprotocol = Some ''cov:observe'' \<rparr>,
       \<lparr> href = ''properties/'' @ key, contentType = ''application/cbor'',
         cov_contentFormat = 60, op = OpStr ''readproperty'', cov_method = ''GET'',
         cov_accept = 60,
         response = \<lparr> r_contentType = ''application/cbor'', r_contentFormat = 60 \<rparr>,
         subprotocol = None \<rparr>,
       \<lparr> href = ''properties/'' @ key, contentType = ''application/cbor'',
         cov_contentFormat = 60, op = OpList [''observeproperty'', ''unobserveproperty''],
         cov_method = ''GET'', cov_accept = 60,
         response = \<lparr> r_contentType = ''application/cbor'', r_contentFormat = 60 \<rparr>,
         subprotocol = Some ''cov:observe'' \<rparr> ]"
    by (simp add: property_forms_def formatIdentifiers_def defaultForm_def Let_def)
  have events: "event_forms formatIdentifiers key =
     [ \<lparr> href = ''events/'' @ key, contentType = ''application/json'',
         cov_contentFormat = 50, op = OpList [''subscribeevent'', ''unsubscribeevent''],
         cov_method = ''GET'', cov_accept = 50,
         response = \<lparr> r_contentType = ''application/json'', r_contentFormat = 50 \<rparr>,
         subprotocol = Some ''cov:observe'' \<rparr>,
       \<lparr> href = ''events/'' @ key, contentType = ''application/cbor'',
         cov_contentFormat = 60, op = OpList [''subscribeevent'', ''unsubscribeevent''],
         cov_method = ''GET'', cov_accept = 60,
         response = \<lparr> r_contentType = ''application/cbor'', r_contentFormat = 60 \<rparr>,
         subprotocol = Some ''cov:observe'' \<rparr> ]"
    by (simp add: event_forms_def formatIdentifiers_def defaultForm_def Let_def)
  have plen: "length (property_forms formatIdentifiers key) = 4"
    unfolding props by simp
  have elen: "length (event_forms formatIdentifiers key) = 2"
    unfolding events by simp
  from registry props events plen elen show ?thesis
    by simp
qed

subsection \<open>Any registry\<close>

text \<open>
  The counts and the cross product do not depend on there being two representations:
  they hold of every registry whose identifiers and whose codes are pairwise different and
  which holds the representation of \<^verbatim>\<open>defaultForm\<close> with its code.
\<close>

lemma property_loop_length:
  "length (property_loop orig fi forms) =
     length forms + 2 * length (filter (\<lambda>p. fst p \<noteq> contentType orig) fi)"
  by (induction orig fi forms rule: property_loop.induct) (auto simp: Let_def)

lemma event_loop_length:
  "length (event_loop orig fi forms) =
     length forms + length (filter (\<lambda>p. fst p \<noteq> contentType orig) fi)"
  by (induction orig fi forms rule: event_loop.induct) auto

lemma others_of_distinct:
  assumes "distinct (map f xs)" and "a \<in> f ` set xs"
  shows "length (filter (\<lambda>p. f p \<noteq> a) xs) = length xs - 1"
  using assms
proof (induction xs)
  case Nil
  then show ?case by simp
next
  case (Cons x xs)
  show ?case
  proof (cases "f x = a")
    case True
    with Cons.prems have "\<forall>p \<in> set xs. f p \<noteq> a" by (auto simp: image_iff)
    then have "filter (\<lambda>p. f p \<noteq> a) xs = xs" by (simp add: filter_id_conv)
    with True show ?thesis by simp
  next
    case False
    with Cons.prems have "a \<in> f ` set xs" by auto
    with Cons have "length (filter (\<lambda>p. f p \<noteq> a) xs) = length xs - 1" by simp
    moreover from \<open>a \<in> f ` set xs\<close> have "xs \<noteq> []" by auto
    ultimately show ?thesis using False by (cases xs) auto
  qed
qed

lemma action_inner_pairs:
  "map form_pair (action_inner base fi forms) =
     map form_pair forms @
     map (\<lambda>p. (contentType base, fst p)) (filter (\<lambda>p. snd p \<noteq> cov_accept base) fi)"
  by (induction base fi forms rule: action_inner.induct) (auto simp: form_pair_def)

lemma action_outer_pairs:
  "map form_pair (action_outer fi orig xs forms) =
     map form_pair forms @ concat (map (row_of fi orig) xs)"
proof (induction fi orig xs forms rule: action_outer.induct)
  case (1 fi originalForm forms)
  then show ?case by simp
next
  case (2 fi originalForm ident code rest forms)
  then show ?case
    by (simp add: action_inner_pairs row_of_def Let_def) (simp add: form_pair_def)
qed


lemma action_pairs_general:
  "map form_pair (action_forms fi key) =
     (''application/json'', ''application/json'') # concat (map (row_of fi (defaultForm
            \<lparr> href := ''actions/'' @ key, cov_method := ''POST'', op := OpStr ''invokeaction'' \<rparr>)) fi)"
  by (simp add: action_forms_def Let_def action_outer_pairs) (simp add: form_pair_def defaultForm_def)


lemma same_code_same_entry:
  assumes "distinct (map snd fi)" and "p \<in> set fi" and "q \<in> set fi" and "snd q = snd p"
  shows "q = p"
  using assms by (metis distinct_map inj_on_def)

lemma same_key_same_entry:
  assumes "distinct (map fst fi)" and "p \<in> set fi" and "q \<in> set fi" and "fst q = fst p"
  shows "q = p"
  using assms by (metis distinct_map inj_on_def)

lemma row_length:
  assumes "distinct (map snd fi)" and "(''application/json'', 50) \<in> set fi" and "p \<in> set fi"
    and "contentType orig = ''application/json''" and "cov_accept orig = 50"
  shows "length (row_of fi orig p) =
           (if fst p \<noteq> ''application/json'' then length fi else length fi - 1)"
proof -
  have "snd p \<in> snd ` set fi" using assms(3) by simp
  then have a: "length (filter (\<lambda>q. snd q \<noteq> snd p) fi) = length fi - 1"
    using assms(1) by (rule others_of_distinct [rotated])
  have "50 \<in> snd ` set fi" using assms(2) by force
  then have b: "length (filter (\<lambda>q. snd q \<noteq> 50) fi) = length fi - 1"
    using assms(1) by (rule others_of_distinct [rotated])
  from assms(3) have "fi \<noteq> []" by auto
  then have "0 < length fi" by simp
  with a b assms(4,5) show ?thesis by (auto simp: row_of_def)
qed

lemma sum_two_kinds:
  "sum_list (map (\<lambda>p. if P p then (a::nat) else b) xs) =
     a * length (filter P xs) + b * length (filter (\<lambda>p. \<not> P p) xs)"
  by (induction xs) (auto simp: algebra_simps)

theorem action_forms_of_any_registry:
  assumes keys: "distinct (map fst fi)" and codes: "distinct (map snd fi)"
    and default: "(''application/json'', 50) \<in> set fi"
  shows "length (action_forms fi key) = length fi + (length fi - 1) * length fi"
    and "set (map form_pair (action_forms fi key)) = set (map fst fi) \<times> set (map fst fi)"
    and "distinct (map form_pair (action_forms fi key))"
proof -
  let ?base = "defaultForm
     \<lparr> href := ''actions/'' @ key, cov_method := ''POST'', op := OpStr ''invokeaction'' \<rparr>"
  let ?n = "length fi"
  have ct: "contentType ?base = ''application/json''" and acc: "cov_accept ?base = 50"
    by (simp_all add: defaultForm_def)
  have pairs: "map form_pair (action_forms fi key) =
      (''application/json'', ''application/json'') # concat (map (row_of fi ?base) fi)"
    by (rule action_pairs_general)
  have each: "map (\<lambda>p. length (row_of fi ?base p)) fi =
      map (\<lambda>p. if fst p \<noteq> ''application/json'' then ?n else ?n - 1) fi"
    using row_length [OF codes default _ ct acc] by (intro map_cong) auto
  have "length (concat (map (row_of fi ?base) fi)) =
      sum_list (map (\<lambda>p. length (row_of fi ?base p)) fi)"
    by (simp add: length_concat comp_def)
  also note each
  also have "sum_list (map (\<lambda>p. if fst p \<noteq> ''application/json'' then ?n else ?n - 1) fi)
      = ?n * length (filter (\<lambda>p. fst p \<noteq> ''application/json'') fi)
      + (?n - 1) * length (filter (\<lambda>p. \<not> fst p \<noteq> ''application/json'') fi)"
    by (rule sum_two_kinds)
  also have "length (filter (\<lambda>p. fst p \<noteq> ''application/json'') fi) = ?n - 1"
    using keys default by (intro others_of_distinct) force+
  also have "length (filter (\<lambda>p. \<not> fst p \<noteq> ''application/json'') fi) = 1"
  proof -
    have "length (filter (\<lambda>p. \<not> fst p \<noteq> ''application/json'') fi)
        + length (filter (\<lambda>p. fst p \<noteq> ''application/json'') fi) = ?n"
      using sum_length_filter_compl [of "\<lambda>p. \<not> fst p \<noteq> ''application/json''" fi] by simp
    moreover have "length (filter (\<lambda>p. fst p \<noteq> ''application/json'') fi) = ?n - 1"
      using keys default by (intro others_of_distinct) force+
    moreover have "0 < ?n" using default by (cases fi) auto
    ultimately show ?thesis by arith
  qed
  finally have rows: "length (concat (map (row_of fi ?base) fi)) = ?n * (?n - 1) + (?n - 1)"
    by simp
  have "0 < ?n" using default by (cases fi) auto
  then have count: "Suc (?n * (?n - 1) + (?n - 1)) = ?n + (?n - 1) * ?n"
    by (cases ?n) (simp_all add: algebra_simps)
  have "length (map form_pair (action_forms fi key)) =
      Suc (length (concat (map (row_of fi ?base) fi)))"
    unfolding pairs by simp
  also have "\<dots> = Suc (?n * (?n - 1) + (?n - 1))"
    unfolding rows ..
  also note count
  finally show len: "length (action_forms fi key) = ?n + (?n - 1) * ?n"
    by simp
  show cross: "set (map form_pair (action_forms fi key)) = set (map fst fi) \<times> set (map fst fi)"
  proof (rule set_eqI)
    fix ab :: "string \<times> string"
    obtain a b where ab: "ab = (a, b)" by (cases ab)
    show "ab \<in> set (map form_pair (action_forms fi key))
        \<longleftrightarrow> ab \<in> set (map fst fi) \<times> set (map fst fi)"
    proof
      assume "ab \<in> set (map form_pair (action_forms fi key))"
      with pairs default ab show "ab \<in> set (map fst fi) \<times> set (map fst fi)"
        by (force simp: row_of_def defaultForm_def split: if_splits)
    next
      assume "ab \<in> set (map fst fi) \<times> set (map fst fi)"
      with ab obtain c d where p: "(a, c) \<in> set fi" and q: "(b, d) \<in> set fi" by auto
      show "ab \<in> set (map form_pair (action_forms fi key))"
      proof (cases "a = ''application/json''")
        case True
        show ?thesis
        proof (cases "b = ''application/json''")
          case True
          with \<open>a = ''application/json''\<close> ab pairs show ?thesis by simp
        next
          case False
          have "d \<noteq> 50"
            using same_code_same_entry [OF codes default q] False by auto
          with q have "(''application/json'', b) \<in> set (row_of fi ?base (''application/json'', 50))"
            by (force simp: row_of_def defaultForm_def)
          with default pairs True ab show ?thesis by auto
        qed
      next
        case False
        have "(a, b) \<in> set (row_of fi ?base (a, c))"
        proof (cases "b = a")
          case True
          with False show ?thesis by (simp add: row_of_def defaultForm_def)
        next
          case nb: False
          have "d \<noteq> c"
            using same_code_same_entry [OF codes p q] nb by auto
          with q False show ?thesis by (force simp: row_of_def defaultForm_def)
        qed
        with p pairs ab show ?thesis by auto
      qed
    qed
  qed
  have "card (set (map fst fi)) = ?n"
    using distinct_card [OF keys] by simp
  then have "card (set (map fst fi) \<times> set (map fst fi)) = ?n * ?n"
    by (simp only: card_cartesian_product)
  moreover have "?n + (?n - 1) * ?n = ?n * ?n"
    using \<open>0 < ?n\<close> by (cases ?n) (simp_all add: algebra_simps)
  ultimately have "card (set (map form_pair (action_forms fi key))) =
      length (map form_pair (action_forms fi key))"
    using cross len by simp
  then show "distinct (map form_pair (action_forms fi key))"
    by (rule card_distinct)
qed

lemma property_forms_of_any_registry:
  assumes "distinct (map fst fi)" and "''application/json'' \<in> fst ` set fi"
  shows "length (property_forms fi key) = 2 * length fi"
proof -
  have "length (filter (\<lambda>p. fst p \<noteq> ''application/json'') fi) = length fi - 1"
    using assms by (rule others_of_distinct)
  moreover have "0 < length fi"
    using assms(2) by (cases fi) auto
  moreover have "length (property_forms fi key) =
      2 + 2 * length (filter (\<lambda>p. fst p \<noteq> ''application/json'') fi)"
    by (simp add: property_forms_def Let_def property_loop_length defaultForm_def)
  ultimately show ?thesis
    by arith
qed

lemma event_forms_of_any_registry:
  assumes "distinct (map fst fi)" and "''application/json'' \<in> fst ` set fi"
  shows "length (event_forms fi key) = length fi"
proof -
  have "length (filter (\<lambda>p. fst p \<noteq> ''application/json'') fi) = length fi - 1"
    using assms by (rule others_of_distinct)
  moreover have "0 < length fi"
    using assms(2) by (cases fi) auto
  moreover have "length (event_forms fi key) =
      1 + length (filter (\<lambda>p. fst p \<noteq> ''application/json'') fi)"
    by (simp add: event_forms_def Let_def event_loop_length defaultForm_def)
  ultimately show ?thesis
    by arith
qed

section \<open>The request handler\<close>

lemmas handler_defs =
  on_request_def serve_root_def serve_properties_def serve_actions_def serve_events_def

lemmas sample_defs =
  sample_request_def sample_codec_def segments_of_def split_slash_def seg_def thingName_def
  acceptHeaders_def reqContentType_def js_or_def observe_requested_def decode_payload_def

lemma to_double_10: "to_double 10 = Num 10"
  by code_simp

lemma to_double_5: "to_double 5 = Num 5"
  by code_simp

text \<open>
  Only a request that names \<^verbatim>\<open>actions/add\<close> or \<^verbatim>\<open>actions/subtract\<close> can change the
  module variables.
\<close>

lemma state_kept:
  assumes "\<not> (seg (segments_of req) 2 = Some ''actions''
               \<and> (seg (segments_of req) 3 = Some ''add''
                    \<or> seg (segments_of req) 3 = Some ''subtract''))"
  shows "state (on_request c td now req st) = st"
  using assms by (auto simp add: handler_defs Let_def split: prod.splits if_splits)

lemma invoke_number:
  assumes "decode_payload c (reqContentType req) (payload req) = Some (JNum n)"
    and "n \<noteq> NaN" and "n \<noteq> Num 0"
  shows "invoke f c now req st =
    (st \<lparr> result := f (result st) n, lastChange := JDate (dates_made st) now,
          dates_made := Suc (dates_made st) \<rparr>,
     [SetOption ''Content-Format'' (acceptHeaders req),
      End (Some (encode_for (acceptHeaders req) (JNum (f (result st) n))))], False)"
  using assms by (simp add: invoke_def Let_def)

subsection \<open>Negotiation\<close>

text \<open>
  C3. A \<^verbatim>\<open>POST\<close> to an action of the thing (\<^verbatim>\<open>add\<close>, \<^verbatim>\<open>subtract\<close>, or any other
  name) whose body is not declared in a registered representation is answered 415,
  whatever its accept token; one whose body is, and whose accept token is not a registered
  representation, is answered 406. In both cases that is all the handler does: the
  variables \<^verbatim>\<open>result\<close> and \<^verbatim>\<open>lastChange\<close> are as before, and the decoder was not
  called (the outcome is the same for every decoder, also for one that throws).
\<close>

theorem negotiation_failure:
  assumes "seg (segments_of req) 1 = Some thingName"
    and "seg (segments_of req) 2 = Some ''actions''"
    and "req_method req = ''POST''"
  shows "(\<not> array_includes supportedContentTypes (reqContentType req) \<longrightarrow>
            on_request c td now req st =
              \<lparr> state = st, sent = [SetCode 415, End None], opened = [], threw = False \<rparr>)
       \<and> (array_includes supportedContentTypes (reqContentType req)
            \<and> \<not> array_includes supportedContentTypes (acceptHeaders req) \<longrightarrow>
            on_request c td now req st =
              \<lparr> state = st, sent = [SetCode 406, End None], opened = [], threw = False \<rparr>)"
  using assms by (simp add: handler_defs)

text \<open>
  C3 at two requests to \<^verbatim>\<open>actions/add\<close>: a body declared as \<^verbatim>\<open>text/plain\<close> (and an
  accept token that is not registered either) is answered 415, a CBOR body with the accept
  token \<^verbatim>\<open>text/plain\<close> is answered 406.
\<close>

theorem negotiation_failure_witness:
  "on_request sample_codec sample_td 1000
     (sample_request ''/coap-calculator-content-negotiation/actions/add'' ''POST''
        [(''Content-Format'', JStr ''text/plain''), (''Accept'', JStr ''text/plain'')]
        ''10'') initial =
     \<lparr> state = initial, sent = [SetCode 415, End None], opened = [], threw = False \<rparr>
   \<and> on_request sample_codec sample_td 1000
     (sample_request ''/coap-calculator-content-negotiation/actions/add'' ''POST''
        [(''Content-Format'', JStr ''application/cbor''), (''Accept'', JStr ''text/plain'')]
        [CHR 0x0A]) initial =
     \<lparr> state = initial, sent = [SetCode 406, End None], opened = [], threw = False \<rparr>"
  using
    negotiation_failure [of
      "sample_request ''/coap-calculator-content-negotiation/actions/add'' ''POST''
         [(''Content-Format'', JStr ''text/plain''), (''Accept'', JStr ''text/plain'')] ''10''"
      sample_codec sample_td 1000 initial]
    negotiation_failure [of
      "sample_request ''/coap-calculator-content-negotiation/actions/add'' ''POST''
         [(''Content-Format'', JStr ''application/cbor''), (''Accept'', JStr ''text/plain'')]
         [CHR 0x0A]"
      sample_codec sample_td 1000 initial]
  by (simp add: sample_defs supportedContentTypes_def)

subsection \<open>Routing\<close>

text \<open>
  C4, as stated, fails in two ways. A \<^verbatim>\<open>GET\<close> of an unknown property of the thing with
  an accept token that is not registered is answered 406, not 404: the handler looks at
  the method and at the accept token before it looks at the name of the property. And a
  \<^verbatim>\<open>POST\<close> to \<^verbatim>\<open>actions/add\<close> of another thing gets its 404 and is ended, but the
  handler goes on to the statement for the actions, which adds the operand to
  \<^verbatim>\<open>result\<close> and sets \<^verbatim>\<open>lastChange\<close>.
\<close>

theorem not_found_counterexample:
  "on_request sample_codec sample_td 1000
     (sample_request ''/coap-calculator-content-negotiation/properties/unknown'' ''GET''
        [(''Accept'', JStr ''text/plain'')] []) initial =
     \<lparr> state = initial, sent = [SetStatusCode 406, End None], opened = [], threw = False \<rparr>
   \<and> on_request sample_codec sample_td 1000
     (sample_request ''/some-other-thing/actions/add'' ''POST''
        [(''Content-Format'', JStr ''application/json''), (''Accept'', JStr ''application/json'')]
        ''10'') initial =
     \<lparr> state = \<lparr> result = Num 10, lastChange = JDate 0 1000, dates_made = 1 \<rparr>,
       sent = [SetCode 404, End None,
               SetOption ''Content-Format'' (JStr ''application/json''),
               End (Some (JsonStringify (JNum (Num 10))))],
       opened = [], threw = False \<rparr>"
  by (simp add: handler_defs invoke_def sample_defs initial_def supportedContentTypes_def
      encode_for_def to_double_10)

text \<open>
  C4, amended. For a request whose first path segment is not the name of the thing, the
  first the handler does is to set the code 404 and end the response. A request to the thing
  that names an unknown property (a \<^verbatim>\<open>GET\<close> with a registered accept token), an unknown
  action (a \<^verbatim>\<open>POST\<close> with a registered body representation and accept token) or an
  unknown event (a \<^verbatim>\<open>GET\<close>) is answered 404 and leaves the state as it was. And no
  request but one that names \<^verbatim>\<open>actions/add\<close> or \<^verbatim>\<open>actions/subtract\<close> changes the
  state.
\<close>

theorem not_found_answers:
  "(seg (segments_of req) 1 \<noteq> Some thingName \<longrightarrow>
      take 2 (sent (on_request c td now req st)) = [SetCode 404, End None])
   \<and> (seg (segments_of req) 1 = Some thingName
        \<and> seg (segments_of req) 2 = Some ''properties''
        \<and> seg (segments_of req) 3 \<noteq> Some ''result''
        \<and> seg (segments_of req) 3 \<noteq> Some ''lastChange''
        \<and> req_method req = ''GET''
        \<and> array_includes supportedContentTypes (acceptHeaders req) \<longrightarrow>
      on_request c td now req st =
        \<lparr> state = st,
          sent = [SetOption ''Content-Format'' (acceptHeaders req), SetCode 404, End None],
          opened = [], threw = False \<rparr>)
   \<and> (seg (segments_of req) 1 = Some thingName
        \<and> seg (segments_of req) 2 = Some ''actions''
        \<and> seg (segments_of req) 3 \<noteq> Some ''add''
        \<and> seg (segments_of req) 3 \<noteq> Some ''subtract''
        \<and> req_method req = ''POST''
        \<and> array_includes supportedContentTypes (reqContentType req)
        \<and> array_includes supportedContentTypes (acceptHeaders req) \<longrightarrow>
      on_request c td now req st =
        \<lparr> state = st,
          sent = [SetOption ''Content-Format'' (acceptHeaders req), SetCode 404, End None],
          opened = [], threw = False \<rparr>)
   \<and> (seg (segments_of req) 1 = Some thingName
        \<and> seg (segments_of req) 2 = Some ''events''
        \<and> seg (segments_of req) 3 \<noteq> Some ''update''
        \<and> req_method req = ''GET'' \<longrightarrow>
      on_request c td now req st =
        \<lparr> state = st, sent = [SetCode 404, End None], opened = [], threw = False \<rparr>)
   \<and> (\<not> (seg (segments_of req) 2 = Some ''actions''
            \<and> (seg (segments_of req) 3 = Some ''add''
                 \<or> seg (segments_of req) 3 = Some ''subtract'')) \<longrightarrow>
      state (on_request c td now req st) = st)"
proof -
  have other_thing: "take 2 (sent (on_request c td now req st)) = [SetCode 404, End None]"
    if "seg (segments_of req) 1 \<noteq> Some thingName"
    using that by (simp add: handler_defs Let_def split: prod.splits)
  have property: "on_request c td now req st =
      \<lparr> state = st,
        sent = [SetOption ''Content-Format'' (acceptHeaders req), SetCode 404, End None],
        opened = [], threw = False \<rparr>"
    if "seg (segments_of req) 1 = Some thingName" "seg (segments_of req) 2 = Some ''properties''"
      "seg (segments_of req) 3 \<noteq> Some ''result''" "seg (segments_of req) 3 \<noteq> Some ''lastChange''"
      "req_method req = ''GET''" "array_includes supportedContentTypes (acceptHeaders req)"
    using that by (simp add: handler_defs Let_def)
  have action: "on_request c td now req st =
      \<lparr> state = st,
        sent = [SetOption ''Content-Format'' (acceptHeaders req), SetCode 404, End None],
        opened = [], threw = False \<rparr>"
    if "seg (segments_of req) 1 = Some thingName" "seg (segments_of req) 2 = Some ''actions''"
      "seg (segments_of req) 3 \<noteq> Some ''add''" "seg (segments_of req) 3 \<noteq> Some ''subtract''"
      "req_method req = ''POST''" "array_includes supportedContentTypes (reqContentType req)"
      "array_includes supportedContentTypes (acceptHeaders req)"
    using that by (simp add: handler_defs Let_def)
  have event: "on_request c td now req st =
      \<lparr> state = st, sent = [SetCode 404, End None], opened = [], threw = False \<rparr>"
    if "seg (segments_of req) 1 = Some thingName" "seg (segments_of req) 2 = Some ''events''"
      "seg (segments_of req) 3 \<noteq> Some ''update''" "req_method req = ''GET''"
    using that by (simp add: handler_defs Let_def)
  from other_thing property action event state_kept [of req c td now st]
  show ?thesis by blast
qed

text \<open>
  C4, amended, at three requests: a read of a property of another thing, and a read of an
  unknown property and a call of an unknown action of the thing.
\<close>

theorem not_found_answers_witness:
  "take 2 (sent (on_request sample_codec sample_td 1000
       (sample_request ''/some-other-thing/properties/result'' ''GET''
          [(''Accept'', JStr ''application/json'')] []) initial)) = [SetCode 404, End None]
   \<and> on_request sample_codec sample_td 1000
       (sample_request ''/coap-calculator-content-negotiation/properties/unknown'' ''GET''
          [(''Accept'', JStr ''application/cbor'')] []) initial =
       \<lparr> state = initial,
         sent = [SetOption ''Content-Format'' (JStr ''application/cbor''), SetCode 404, End None],
         opened = [], threw = False \<rparr>
   \<and> on_request sample_codec sample_td 1000
       (sample_request ''/coap-calculator-content-negotiation/actions/multiply'' ''POST''
          [(''Content-Format'', JStr ''application/json''), (''Accept'', JStr ''application/json'')]
          ''10'') initial =
       \<lparr> state = initial,
         sent = [SetOption ''Content-Format'' (JStr ''application/json''), SetCode 404, End None],
         opened = [], threw = False \<rparr>"
  using
    not_found_answers [of
      "sample_request ''/some-other-thing/properties/result'' ''GET''
         [(''Accept'', JStr ''application/json'')] []"
      sample_codec sample_td 1000 initial]
    not_found_answers [of
      "sample_request ''/coap-calculator-content-negotiation/properties/unknown'' ''GET''
         [(''Accept'', JStr ''application/cbor'')] []"
      sample_codec sample_td 1000 initial]
    not_found_answers [of
      "sample_request ''/coap-calculator-content-negotiation/actions/multiply'' ''POST''
         [(''Content-Format'', JStr ''application/json''), (''Accept'', JStr ''application/json'')]
         ''10''"
      sample_codec sample_td 1000 initial]
  by (simp add: sample_defs supportedContentTypes_def)

subsection \<open>Operands\<close>




subsection \<open>Mutation\<close>

text \<open>
  C6, as stated, fails on the timestamps. \<^verbatim>\<open>lastChange\<close> is set to \<^verbatim>\<open>new Date()\<close>,
  the reading of the clock in milliseconds; an \<^verbatim>\<open>add\<close> and a \<^verbatim>\<open>subtract\<close> handled
  in the same millisecond leave the same time, so the second is not strictly later than the
  first. (And before the first mutation \<^verbatim>\<open>lastChange\<close> is the empty string, which the
  first timestamp is not later than.)
\<close>

theorem same_millisecond_not_later:
  "\<not> strictly_later
       (lastChange (state (on_request sample_codec sample_td 1000
          (sample_request ''/coap-calculator-content-negotiation/actions/subtract'' ''POST''
             [(''Content-Format'', JStr ''application/cbor''), (''Accept'', JStr ''application/json'')]
             [CHR 0x05])
          (state (on_request sample_codec sample_td 1000
             (sample_request ''/coap-calculator-content-negotiation/actions/add'' ''POST''
                [(''Content-Format'', JStr ''application/json''),
                 (''Accept'', JStr ''application/cbor'')]
                ''10'') initial)))))
       (lastChange (state (on_request sample_codec sample_td 1000
          (sample_request ''/coap-calculator-content-negotiation/actions/add'' ''POST''
             [(''Content-Format'', JStr ''application/json''), (''Accept'', JStr ''application/cbor'')]
             ''10'') initial)))
   \<and> result (state (on_request sample_codec sample_td 1000
          (sample_request ''/coap-calculator-content-negotiation/actions/subtract'' ''POST''
             [(''Content-Format'', JStr ''application/cbor''), (''Accept'', JStr ''application/json'')]
             [CHR 0x05])
          (state (on_request sample_codec sample_td 1000
             (sample_request ''/coap-calculator-content-negotiation/actions/add'' ''POST''
                [(''Content-Format'', JStr ''application/json''),
                 (''Accept'', JStr ''application/cbor'')]
                ''10'') initial)))) = Num 5
   \<and> \<not> strictly_later
       (lastChange (state (on_request sample_codec sample_td 1000
          (sample_request ''/coap-calculator-content-negotiation/actions/add'' ''POST''
             [(''Content-Format'', JStr ''application/json''), (''Accept'', JStr ''application/cbor'')]
             ''10'') initial)))
       (lastChange initial)"
  by (simp add: handler_defs invoke_def sample_defs initial_def supportedContentTypes_def
      encode_for_def to_double_10 to_double_5 js_subtract_def)

text \<open>
  C6, amended. From \<open>result = 0\<close>, an \<^verbatim>\<open>add\<close> of 10 and then a \<^verbatim>\<open>subtract\<close> of 5,
  each with any registered representation of its body and any registered accept token,
  are answered with the new value (10, then 5) in the representation of the accept token
  and leave \<open>result = 5\<close>. Each sets \<^verbatim>\<open>lastChange\<close> to a new date that holds the
  reading of the clock at that request; the second is strictly later than the first exactly
  when the clock has moved on between the two.
\<close>

theorem add_then_subtract:
  assumes "seg (segments_of r1) 1 = Some thingName"
    and "seg (segments_of r1) 2 = Some ''actions''"
    and "seg (segments_of r1) 3 = Some ''add''"
    and "req_method r1 = ''POST''"
    and "array_includes supportedContentTypes (reqContentType r1)"
    and "array_includes supportedContentTypes (acceptHeaders r1)"
    and "decode_payload c (reqContentType r1) (payload r1) = Some (JNum (Num 10))"
    and "seg (segments_of r2) 1 = Some thingName"
    and "seg (segments_of r2) 2 = Some ''actions''"
    and "seg (segments_of r2) 3 = Some ''subtract''"
    and "req_method r2 = ''POST''"
    and "array_includes supportedContentTypes (reqContentType r2)"
    and "array_includes supportedContentTypes (acceptHeaders r2)"
    and "decode_payload c (reqContentType r2) (payload r2) = Some (JNum (Num 5))"
    and "result st = Num 0"
  shows "on_request c td t1 r1 st =
           \<lparr> state = st \<lparr> result := Num 10, lastChange := JDate (dates_made st) t1,
                           dates_made := Suc (dates_made st) \<rparr>,
             sent = [SetOption ''Content-Format'' (acceptHeaders r1),
                     End (Some (encode_for (acceptHeaders r1) (JNum (Num 10))))],
             opened = [], threw = False \<rparr>
       \<and> on_request c td t2 r2 (state (on_request c td t1 r1 st)) =
           \<lparr> state = st \<lparr> result := Num 5, lastChange := JDate (Suc (dates_made st)) t2,
                           dates_made := Suc (Suc (dates_made st)) \<rparr>,
             sent = [SetOption ''Content-Format'' (acceptHeaders r2),
                     End (Some (encode_for (acceptHeaders r2) (JNum (Num 5))))],
             opened = [], threw = False \<rparr>
       \<and> run c td [(t1, r1), (t2, r2)] st =
           st \<lparr> result := Num 5, lastChange := JDate (Suc (dates_made st)) t2,
                 dates_made := Suc (Suc (dates_made st)) \<rparr>
       \<and> strictly_later
            (lastChange (state (on_request c td t2 r2 (state (on_request c td t1 r1 st)))))
            (lastChange (state (on_request c td t1 r1 st))) = (t1 < t2)"
proof -
  have first: "on_request c td t1 r1 st =
      \<lparr> state = st \<lparr> result := Num 10, lastChange := JDate (dates_made st) t1,
                      dates_made := Suc (dates_made st) \<rparr>,
        sent = [SetOption ''Content-Format'' (acceptHeaders r1),
                End (Some (encode_for (acceptHeaders r1) (JNum (Num 10))))],
        opened = [], threw = False \<rparr>"
    using assms(1-7,15) by (simp add: handler_defs invoke_number to_double_10)
  have second: "on_request c td t2 r2
        (st \<lparr> result := Num 10, lastChange := JDate (dates_made st) t1,
              dates_made := Suc (dates_made st) \<rparr>) =
      \<lparr> state = st \<lparr> result := Num 5, lastChange := JDate (Suc (dates_made st)) t2,
                      dates_made := Suc (Suc (dates_made st)) \<rparr>,
        sent = [SetOption ''Content-Format'' (acceptHeaders r2),
                End (Some (encode_for (acceptHeaders r2) (JNum (Num 5))))],
        opened = [], threw = False \<rparr>"
    using assms(8-14) by (simp add: handler_defs invoke_number js_subtract_def to_double_5)
  from first second show ?thesis by simp
qed

text \<open>
  C6, amended, at the two calls of the test client: 10 added as JSON with the answer in
  CBOR, then 5 subtracted as CBOR with the answer in JSON, one second later.
\<close>

theorem add_then_subtract_witness:
  "run sample_codec sample_td
     [(1000, sample_request ''/coap-calculator-content-negotiation/actions/add'' ''POST''
          [(''Content-Format'', JStr ''application/json''), (''Accept'', JStr ''application/cbor'')]
          ''10''),
      (2000, sample_request ''/coap-calculator-content-negotiation/actions/subtract'' ''POST''
          [(''Content-Format'', JStr ''application/cbor''), (''Accept'', JStr ''application/json'')]
          [CHR 0x05])] initial =
     \<lparr> result = Num 5, lastChange = JDate 1 2000, dates_made = 2 \<rparr>"
proof -
  have "run sample_codec sample_td
     [(1000, sample_request ''/coap-calculator-content-negotiation/actions/add'' ''POST''
          [(''Content-Format'', JStr ''application/json''), (''Accept'', JStr ''application/cbor'')]
          ''10''),
      (2000, sample_request ''/coap-calculator-content-negotiation/actions/subtract'' ''POST''
          [(''Content-Format'', JStr ''application/cbor''), (''Accept'', JStr ''application/json'')]
          [CHR 0x05])] initial =
     initial \<lparr> result := Num 5, lastChange := JDate (Suc (dates_made initial)) 2000,
               dates_made := Suc (Suc (dates_made initial)) \<rparr>"
    by (rule add_then_subtract [THEN conjunct2, THEN conjunct2, THEN conjunct1])
      (simp_all add: sample_defs supportedContentTypes_def initial_def)
  then show ?thesis
    by (simp add: initial_def)
qed

subsection \<open>The event and the description\<close>

text \<open>
  C7. A \<^verbatim>\<open>GET\<close> of \<^verbatim>\<open>events/update\<close> of the thing without the observe option
  (\<^verbatim>\<open>req.headers.Observe\<close> is not 0) is answered with the code 402, which is CoAP's
  4.02 Bad Option; no interval is started, and the state is as before.
\<close>

theorem event_read_without_observe:
  assumes "seg (segments_of req) 1 = Some thingName"
    and "seg (segments_of req) 2 = Some ''events''"
    and "seg (segments_of req) 3 = Some ''update''"
    and "req_method req = ''GET''"
    and "\<not> observe_requested req"
  shows "on_request c td now req st =
           \<lparr> state = st, sent = [SetCode 402, End None], opened = [], threw = False \<rparr>"
  using assms by (simp add: handler_defs)

text \<open>C7 at a read of the event with a registered accept token and no observe option.\<close>

theorem event_read_without_observe_witness:
  "\<not> observe_requested
       (sample_request ''/coap-calculator-content-negotiation/events/update'' ''GET''
          [(''Accept'', JStr ''application/json'')] [])
   \<and> on_request sample_codec sample_td 1000
       (sample_request ''/coap-calculator-content-negotiation/events/update'' ''GET''
          [(''Accept'', JStr ''application/json'')] []) initial =
       \<lparr> state = initial, sent = [SetCode 402, End None], opened = [], threw = False \<rparr>"
  using
    event_read_without_observe [of
      "sample_request ''/coap-calculator-content-negotiation/events/update'' ''GET''
         [(''Accept'', JStr ''application/json'')] []"
      sample_codec sample_td 1000 initial]
  by (simp add: sample_defs)

text \<open>
  C9. A \<^verbatim>\<open>GET\<close> of the thing itself (no segment, or an empty one, after its name) is
  answered with \<^verbatim>\<open>JSON.stringify(thingDescription)\<close> and nothing else, whatever the
  headers of the request: the accept token is not looked at, and no 406 is sent.
\<close>

theorem description_read:
  assumes "seg (segments_of req) 1 = Some thingName"
    and "no_segment (seg (segments_of req) 2)"
    and "req_method req = ''GET''"
  shows "on_request c td now req st =
           \<lparr> state = st, sent = [End (Some (JsonStringifyTD td))], opened = [], threw = False \<rparr>"
  using assms by (cases "seg (segments_of req) 2") (auto simp add: handler_defs)

text \<open>C9 at a read of the thing with the accept token \<^verbatim>\<open>text/plain\<close>.\<close>

theorem description_read_witness:
  "segments_of (sample_request ''/coap-calculator-content-negotiation'' ''GET''
       [(''Accept'', JStr ''text/plain'')] []) = [[], thingName]
   \<and> on_request sample_codec sample_td 1000
       (sample_request ''/coap-calculator-content-negotiation'' ''GET''
          [(''Accept'', JStr ''text/plain'')] []) initial =
       \<lparr> state = initial, sent = [End (Some (JsonStringifyTD sample_td))], opened = [],
         threw = False \<rparr>"
  using
    description_read [of
      "sample_request ''/coap-calculator-content-negotiation'' ''GET''
         [(''Accept'', JStr ''text/plain'')] []"
      sample_codec sample_td 1000 initial]
  by (simp add: sample_defs)

subsection \<open>The last change before any change\<close>

text \<open>
  The handler changes the module variables on the requests that \<open>mutates\<close> holds of, and
  on no other: not on one that is answered 400, 404, 405, 406 or 415, and not on one whose
  payload makes the decoder throw.
\<close>

lemma state_changes_iff:
  "state (on_request c td now req st) \<noteq> st \<longleftrightarrow> mutates c req"
proof (cases "mutates c req")
  case True
  then have "dates_made (state (on_request c td now req st)) = Suc (dates_made st)"
    by (auto simp add: mutates_def handler_defs invoke_def Let_def split: option.splits prod.splits)
  then have "state (on_request c td now req st) \<noteq> st"
    by (metis n_not_Suc_n)
  with True show ?thesis by simp
next
  case False
  then have "state (on_request c td now req st) = st"
    by (auto simp add: mutates_def handler_defs invoke_def Let_def
        split: option.splits prod.splits if_splits)
  with False show ?thesis by simp
qed

lemma run_without_mutation:
  assumes "\<forall>p \<in> set history. \<not> mutates c (snd p)"
  shows "run c td history st = st"
  using assms
proof (induction history arbitrary: st)
  case Nil
  then show ?case by simp
next
  case (Cons p history)
  obtain now req where p: "p = (now, req)" by (cases p)
  from Cons.prems p have "\<not> mutates c req" by simp
  then have "state (on_request c td now req st) = st"
    using state_changes_iff [of c td now req st] by blast
  with Cons p show ?case by simp
qed

text \<open>
  C10. \<^verbatim>\<open>lastChange\<close> starts as the empty string and stays so until the first successful
  mutation, whatever requests come before it (reads, requests that are refused, calls of
  \<^verbatim>\<open>add\<close> or \<^verbatim>\<open>subtract\<close> that fail); a read of the property \<^verbatim>\<open>lastChange\<close>
  of the thing is then answered with the empty string, as JSON or as CBOR after the accept
  token, and not with a timestamp.
\<close>

theorem lastChange_before_first_mutation:
  assumes "\<forall>p \<in> set history. \<not> mutates c (snd p)"
    and "seg (segments_of req) 1 = Some thingName"
    and "seg (segments_of req) 2 = Some ''properties''"
    and "seg (segments_of req) 3 = Some ''lastChange''"
    and "req_method req = ''GET''"
    and "array_includes supportedContentTypes (acceptHeaders req)"
    and "\<not> observe_requested req"
  shows "lastChange initial = JStr []
       \<and> lastChange (run c td history initial) = JStr []
       \<and> on_request c td now req (run c td history initial) =
           \<lparr> state = initial,
             sent = [SetOption ''Content-Format'' (acceptHeaders req),
                     End (Some (encode_for (acceptHeaders req) (JStr [])))],
             opened = [], threw = False \<rparr>
       \<and> (encode_for (acceptHeaders req) (JStr []) =
            (if acceptHeaders req = JStr ''application/json'' then JsonStringify (JStr [])
             else CborEncode (JStr [])))"
proof -
  have kept: "run c td history initial = initial"
    using assms(1) by (rule run_without_mutation)
  have empty: "lastChange initial = JStr []"
    by (simp add: initial_def)
  have answer: "on_request c td now req initial =
      \<lparr> state = initial,
        sent = [SetOption ''Content-Format'' (acceptHeaders req),
                End (Some (encode_for (acceptHeaders req) (lastChange initial)))],
        opened = [], threw = False \<rparr>"
    using assms(2-7) by (simp add: handler_defs Let_def)
  have "acceptHeaders req = JStr ''application/json'' \<or> acceptHeaders req = JStr ''application/cbor''"
    using assms(6) by (cases "acceptHeaders req") (auto simp: supportedContentTypes_def)
  then have body: "encode_for (acceptHeaders req) (JStr []) =
      (if acceptHeaders req = JStr ''application/json'' then JsonStringify (JStr [])
       else CborEncode (JStr []))"
    by (auto simp: encode_for_def)
  from kept empty answer body show ?thesis by simp
qed

text \<open>
  C10 after a read of \<^verbatim>\<open>result\<close>, an \<^verbatim>\<open>add\<close> of zero (answered 400), a
  \<^verbatim>\<open>subtract\<close> with a body declared as \<^verbatim>\<open>text/plain\<close> (answered 415) and an
  \<^verbatim>\<open>add\<close> with an empty body (the decoder throws): the read of \<^verbatim>\<open>lastChange\<close> with
  the accept token of CBOR is answered with the CBOR encoding of the empty string.
\<close>

theorem lastChange_before_first_mutation_witness:
  "on_request sample_codec sample_td 5000
     (sample_request ''/coap-calculator-content-negotiation/properties/lastChange'' ''GET''
        [(''Accept'', JStr ''application/cbor'')] [])
     (run sample_codec sample_td
        [(1000, sample_request ''/coap-calculator-content-negotiation/properties/result'' ''GET''
            [(''Accept'', JStr ''application/json'')] []),
         (2000, sample_request ''/coap-calculator-content-negotiation/actions/add'' ''POST''
            [(''Content-Format'', JStr ''application/json''), (''Accept'', JStr ''application/json'')]
            ''0''),
         (3000, sample_request ''/coap-calculator-content-negotiation/actions/subtract'' ''POST''
            [(''Content-Format'', JStr ''text/plain''), (''Accept'', JStr ''application/json'')]
            ''5''),
         (4000, sample_request ''/coap-calculator-content-negotiation/actions/add'' ''POST''
            [(''Content-Format'', JStr ''application/json''), (''Accept'', JStr ''application/json'')]
            [])]
        initial) =
     \<lparr> state = initial,
       sent = [SetOption ''Content-Format'' (JStr ''application/cbor''),
               End (Some (CborEncode (JStr [])))],
       opened = [], threw = False \<rparr>"
  using
    lastChange_before_first_mutation [of
      "[(1000, sample_request ''/coap-calculator-content-negotiation/properties/result'' ''GET''
            [(''Accept'', JStr ''application/json'')] []),
        (2000, sample_request ''/coap-calculator-content-negotiation/actions/add'' ''POST''
            [(''Content-Format'', JStr ''application/json''), (''Accept'', JStr ''application/json'')]
            ''0''),
        (3000, sample_request ''/coap-calculator-content-negotiation/actions/subtract'' ''POST''
            [(''Content-Format'', JStr ''text/plain''), (''Accept'', JStr ''application/json'')]
            ''5''),
        (4000, sample_request ''/coap-calculator-content-negotiation/actions/add'' ''POST''
            [(''Content-Format'', JStr ''application/json''), (''Accept'', JStr ''application/json'')]
            [])]"
      sample_codec
      "sample_request ''/coap-calculator-content-negotiation/properties/lastChange'' ''GET''
         [(''Accept'', JStr ''application/cbor'')] []"
      sample_td 5000]
  by (simp add: sample_defs supportedContentTypes_def mutates_def)

section \<open>The intervals\<close>

text \<open>
  As long as \<^verbatim>\<open>result\<close> is a number other than \<^verbatim>\<open>NaN\<close>, a run of the callback that
  watches it (for the property or for the event) writes to the response exactly when
  \<^verbatim>\<open>result\<close> is not the value it wrote last; it writes the new value in the
  representation of the accept token of its request and keeps it as the old one.
\<close>

lemma tick_of_number:
  assumes "watches s = ResultProperty \<or> watches s = UpdateEvent"
    and "old_value s = JNum a"
    and "result st \<noteq> NaN"
  shows "tick st s =
     (if a \<noteq> result st then
        ((if watches s = UpdateEvent then [SetOption ''Content-Format'' (sub_accept s)] else [])
           @ [SetStatusCode 205, Write (encode_for (sub_accept s) (JNum (result st)))],
         s \<lparr> old_value := JNum (result st) \<rparr>)
      else ((if watches s = UpdateEvent then [SetOption ''Content-Format'' (sub_accept s)] else []),
            s))"
  using assms by (cases a) (auto simp add: tick_def Let_def)

text \<open>
  C8 holds of every value but one. \<^verbatim>\<open>oldResult !== result\<close> is true when both are
  \<^verbatim>\<open>NaN\<close>, and \<^verbatim>\<open>result\<close> becomes \<^verbatim>\<open>NaN\<close> when \<^verbatim>\<open>Infinity\<close> is added and
  then subtracted (an operand the handler accepts: it is a number and truthy). From then
  on an observation of \<^verbatim>\<open>result\<close> writes a notification on every run of its callback,
  and is after it as it was before, although the value does not change.
\<close>

theorem nan_notified_on_every_tick:
  "run sample_codec sample_td
     [(1000, sample_request ''/coap-calculator-content-negotiation/actions/add'' ''POST''
          [(''Content-Format'', JStr ''application/json''), (''Accept'', JStr ''application/json'')]
          ''1e999''),
      (2000, sample_request ''/coap-calculator-content-negotiation/actions/subtract'' ''POST''
          [(''Content-Format'', JStr ''application/json''), (''Accept'', JStr ''application/json'')]
          ''1e999'')] initial =
     \<lparr> result = NaN, lastChange = JDate 1 2000, dates_made = 2 \<rparr>
   \<and> opened (on_request sample_codec sample_td 3000
       (sample_request ''/coap-calculator-content-negotiation/properties/result'' ''GET''
          [(''Accept'', JStr ''application/json''), (''Observe'', JNum (Num 0))] [])
       \<lparr> result = NaN, lastChange = JDate 1 2000, dates_made = 2 \<rparr>) =
     [\<lparr> watches = ResultProperty, sub_accept = JStr ''application/json'', old_value = JNum NaN \<rparr>]
   \<and> tick \<lparr> result = NaN, lastChange = JDate 1 2000, dates_made = 2 \<rparr>
       \<lparr> watches = ResultProperty, sub_accept = JStr ''application/json'', old_value = JNum NaN \<rparr> =
     ([SetStatusCode 205, Write (JsonStringify (JNum NaN))],
      \<lparr> watches = ResultProperty, sub_accept = JStr ''application/json'', old_value = JNum NaN \<rparr>)"
  by (simp add: handler_defs invoke_def sample_defs initial_def supportedContentTypes_def
      encode_for_def js_subtract_def tick_def Let_def)

end
